theory Spec2Isabelle
  imports Main "HOL-Library.Word"
begin

unbundle bit_operations_syntax

section \<open>TCP transport options of nanomsg (src/transports/tcp/tcp.c)\<close>

text \<open>
  The file defines the TCP-specific option set (\<^verbatim>\<open>struct nn_tcp_optset\<close> with its
  \<^verbatim>\<open>setopt\<close> and \<^verbatim>\<open>getopt\<close> operations) and \<^verbatim>\<open>nn_tcp_set_options\<close>, which copies
  the options of an endpoint onto a live socket. C's \<^verbatim>\<open>int\<close> is taken to be 32 bits wide
  (\<^verbatim>\<open>sizeof (int) = 4\<close>), memory is a list of bytes.
\<close>

subsection \<open>Machine integers and their bytes\<close>

type_synonym int32 = "32 word"
type_synonym byte = "8 word"

definition sizeof_int :: nat where
  "sizeof_int = 4"

text \<open>
  \<^verbatim>\<open>*(int*) optval\<close> and \<^verbatim>\<open>memcpy (optval, &intval, ...)\<close> read and write the object
  representation of an \<^verbatim>\<open>int\<close>, which depends on the byte order of the machine.
\<close>

datatype byte_order = Little_Endian | Big_Endian

definition le_bytes :: "int32 \<Rightarrow> byte list" where
  "le_bytes w = [ucast w, ucast (drop_bit 8 w), ucast (drop_bit 16 w), ucast (drop_bit 24 w)]"

definition le_int :: "byte list \<Rightarrow> int32" where
  "le_int bs = (case bs of
      [b0, b1, b2, b3] \<Rightarrow>
        ucast b0 OR push_bit 8 (ucast b1) OR push_bit 16 (ucast b2) OR push_bit 24 (ucast b3)
    | _ \<Rightarrow> 0)"

definition store_int :: "byte_order \<Rightarrow> int32 \<Rightarrow> byte list" where
  "store_int bo w = (case bo of Little_Endian \<Rightarrow> le_bytes w | Big_Endian \<Rightarrow> rev (le_bytes w))"

definition load_int :: "byte_order \<Rightarrow> byte list \<Rightarrow> int32" where
  "load_int bo bs = (case bo of Little_Endian \<Rightarrow> le_int bs | Big_Endian \<Rightarrow> le_int (rev bs))"

text \<open>\<^verbatim>\<open>memcpy (dst, src, n)\<close>: the first \<open>n\<close> bytes of \<open>dst\<close> are replaced by those of \<open>src\<close>.\<close>

definition memcpy :: "byte list \<Rightarrow> byte list \<Rightarrow> nat \<Rightarrow> byte list" where
  "memcpy dst src n = take n src @ drop n dst"

subsection \<open>Constants of the headers\<close>

text \<open>
  The option identifiers and levels are macros of \<^verbatim>\<open>nn.h\<close> and \<^verbatim>\<open>tcp.h\<close>, which are not
  part of the file; their values are a parameter of the model. The labels of a
  \<^verbatim>\<open>switch\<close> are pairwise different, which \<open>tcp_options_distinct\<close> states for the four
  TCP options.
\<close>

record nn_hdr =
  NN_SOL_SOCKET :: int32
  NN_SNDBUF :: int32
  NN_RCVBUF :: int32
  NN_KEEPALIVE :: int32
  NN_TCP :: int32
  NN_TCP_NODELAY :: int32
  NN_TCP_KEEPIDLE :: int32
  NN_TCP_KEEPINTVL :: int32
  NN_TCP_KEEPCNT :: int32

definition tcp_options_distinct :: "nn_hdr \<Rightarrow> bool" where
  "tcp_options_distinct h =
     distinct [NN_TCP_NODELAY h, NN_TCP_KEEPIDLE h, NN_TCP_KEEPINTVL h, NN_TCP_KEEPCNT h]"

definition tcp_option_known :: "nn_hdr \<Rightarrow> int32 \<Rightarrow> bool" where
  "tcp_option_known h option =
     (option \<in> {NN_TCP_NODELAY h, NN_TCP_KEEPIDLE h, NN_TCP_KEEPINTVL h, NN_TCP_KEEPCNT h})"

text \<open>The error codes that the functions return negated.\<close>

datatype errno = EINVAL | ENOPROTOOPT

subsection \<open>The option set\<close>

record nn_tcp_optset =
  nodelay :: int32
  keepidle :: int32
  keepintvl :: int32
  keepcnt :: int32

text \<open>
  \<^verbatim>\<open>nn_tcp_optset ()\<close>: \<^verbatim>\<open>alloc_assert\<close> aborts when \<^verbatim>\<open>nn_alloc\<close> returns no memory
  (the argument tells whether the allocation succeeds); otherwise the option set holds
  the defaults.
\<close>

definition nn_tcp_optset :: "bool \<Rightarrow> nn_tcp_optset option" where
  "nn_tcp_optset alloc_ok =
     (if \<not> alloc_ok then None
      else Some \<lparr>nodelay = 0, keepidle = - 1, keepintvl = - 1, keepcnt = - 1\<rparr>)"

text \<open>
  \<^verbatim>\<open>nn_tcp_optset_setopt\<close>: \<open>optset\<close> is the option set that \<^verbatim>\<open>nn_cont\<close> finds around
  \<^verbatim>\<open>self\<close>, \<open>optval\<close> is the memory that the caller passes, \<open>optvallen\<close> bytes of it. The
  result is the return code (\<open>Inl e\<close> for \<open>-e\<close>, \<open>Inr ()\<close> for 0) and the option set after
  the call. \<^verbatim>\<open>nn_slow\<close> marks a condition as unlikely and does not change it.
\<close>

definition nn_tcp_optset_setopt ::
  "nn_hdr \<Rightarrow> byte_order \<Rightarrow> nn_tcp_optset \<Rightarrow> int32 \<Rightarrow> byte list \<Rightarrow>
     (errno + unit) \<times> nn_tcp_optset" where
  "nn_tcp_optset_setopt h bo optset option optval =
     (let optvallen = length optval in
      if optvallen \<noteq> sizeof_int then (Inl EINVAL, optset)
      else
        let val = load_int bo optval in
        if option = NN_TCP_NODELAY h then
          (if val \<noteq> 0 \<and> val \<noteq> 1 then (Inl EINVAL, optset)
           else (Inr (), optset\<lparr>nodelay := val\<rparr>))
        else if option = NN_TCP_KEEPIDLE h then
          (if val \<le>s 0 then (Inl EINVAL, optset)
           else (Inr (), optset\<lparr>keepidle := val\<rparr>))
        else if option = NN_TCP_KEEPINTVL h then
          (if val \<le>s 0 then (Inl EINVAL, optset)
           else (Inr (), optset\<lparr>keepintvl := val\<rparr>))
        else if option = NN_TCP_KEEPCNT h then
          (if val \<le>s 0 then (Inl EINVAL, optset)
           else (Inr (), optset\<lparr>keepcnt := val\<rparr>))
        else (Inl ENOPROTOOPT, optset))"

text \<open>
  \<^verbatim>\<open>nn_tcp_optset_getopt\<close>: \<open>optval\<close> is the destination, and its length is the capacity
  that the caller passes in \<^verbatim>\<open>*optvallen\<close>. The result is the return code, the
  destination and \<^verbatim>\<open>*optvallen\<close> after the call.
\<close>

definition nn_tcp_optset_getopt ::
  "nn_hdr \<Rightarrow> byte_order \<Rightarrow> nn_tcp_optset \<Rightarrow> int32 \<Rightarrow> byte list \<Rightarrow>
     (errno + unit) \<times> byte list \<times> nat" where
  "nn_tcp_optset_getopt h bo optset option optval =
     (let optvallen = length optval;
          sel =
            (if option = NN_TCP_NODELAY h then Some (nodelay optset)
             else if option = NN_TCP_KEEPIDLE h then Some (keepidle optset)
             else if option = NN_TCP_KEEPINTVL h then Some (keepintvl optset)
             else if option = NN_TCP_KEEPCNT h then Some (keepcnt optset)
             else None)
      in case sel of
           None \<Rightarrow> (Inl ENOPROTOOPT, optval, optvallen)
         | Some intval \<Rightarrow>
             (Inr (),
              memcpy optval (store_int bo intval)
                (if optvallen < sizeof_int then optvallen else sizeof_int),
              sizeof_int))"


subsection \<open>Copying the options of an endpoint onto a socket\<close>

text \<open>
  The socket options of the operating system are macros that a platform defines or
  not; \<^verbatim>\<open>nn_tcp_set_options\<close> tests five of them with \<^verbatim>\<open>#if defined\<close>.
\<close>

record platform =
  defined_SO_KEEPALIVE :: bool
  defined_TCP_NODELAY :: bool
  defined_TCP_KEEPIDLE :: bool
  defined_TCP_KEEPINTVL :: bool
  defined_TCP_KEEPCNT :: bool

datatype os_level = SOL_SOCKET | IPPROTO_TCP

datatype os_option =
  SO_SNDBUF | SO_RCVBUF | SO_KEEPALIVE | TCP_NODELAY | TCP_KEEPIDLE | TCP_KEEPINTVL | TCP_KEEPCNT

text \<open>
  \<^verbatim>\<open>nn_usock_setsockopt (sock, level, optname, &val, sizeof (val))\<close> is not part of the
  file. The socket is the list of the calls made on it, the latest last, each with its
  level, its option, the value passed and the length passed.
\<close>

datatype usock_call =
  Setsockopt (call_level: os_level) (call_name: os_option) (call_val: int32) (call_len: nat)

type_synonym nn_usock = "usock_call list"

definition nn_usock_setsockopt ::
  "nn_usock \<Rightarrow> os_level \<Rightarrow> os_option \<Rightarrow> int32 \<Rightarrow> nat \<Rightarrow> nn_usock" where
  "nn_usock_setsockopt sock lvl name val len = sock @ [Setsockopt lvl name val len]"

text \<open>
  Modelled from the spec: \<^verbatim>\<open>nn_epbase_getopt (source, level, option, &val, &sz)\<close> is not
  part of the file. The option store of the endpoint is an abstract key-value store,
  queried by level and option; the model takes it as the function that gives, for a
  level and an option, the value that the call leaves in \<^verbatim>\<open>val\<close> and the size that it
  leaves in \<^verbatim>\<open>sz\<close>.
\<close>

type_synonym nn_epbase = "int32 \<Rightarrow> int32 \<Rightarrow> int32 \<times> nat"

text \<open>
  A failed \<^verbatim>\<open>nn_assert\<close> aborts the process: \<open>Aborted\<close> holds the socket at that moment,
  \<open>Ok\<close> the socket when the steps so far have returned.
\<close>

datatype run = Ok nn_usock | Aborted nn_usock

definition andthen :: "run \<Rightarrow> (nn_usock \<Rightarrow> run) \<Rightarrow> run" where
  "andthen r f = (case r of Ok sock \<Rightarrow> f sock | Aborted sock \<Rightarrow> Aborted sock)"

text \<open>The seven blocks of \<^verbatim>\<open>nn_tcp_set_options\<close>, in the order of the file.\<close>

definition set_sndbuf :: "nn_hdr \<Rightarrow> nn_epbase \<Rightarrow> nn_usock \<Rightarrow> run" where
  "set_sndbuf h source sock =
     (let (val, sz) = source (NN_SOL_SOCKET h) (NN_SNDBUF h) in
      if sz \<noteq> sizeof_int then Aborted sock
      else Ok (nn_usock_setsockopt sock SOL_SOCKET SO_SNDBUF val sizeof_int))"

definition set_rcvbuf :: "nn_hdr \<Rightarrow> nn_epbase \<Rightarrow> nn_usock \<Rightarrow> run" where
  "set_rcvbuf h source sock =
     (let (val, sz) = source (NN_SOL_SOCKET h) (NN_RCVBUF h) in
      if sz \<noteq> sizeof_int then Aborted sock
      else Ok (nn_usock_setsockopt sock SOL_SOCKET SO_RCVBUF val sizeof_int))"

definition set_keepalive :: "nn_hdr \<Rightarrow> nn_epbase \<Rightarrow> nn_usock \<Rightarrow> run" where
  "set_keepalive h source sock =
     (let (val, sz) = source (NN_SOL_SOCKET h) (NN_KEEPALIVE h) in
      if sz \<noteq> sizeof_int then Aborted sock
      else Ok (nn_usock_setsockopt sock SOL_SOCKET SO_KEEPALIVE val sizeof_int))"

definition set_nodelay :: "nn_hdr \<Rightarrow> nn_epbase \<Rightarrow> nn_usock \<Rightarrow> run" where
  "set_nodelay h source sock =
     (let (val, sz) = source (NN_TCP h) (NN_TCP_NODELAY h) in
      if sz \<noteq> sizeof_int then Aborted sock
      else Ok (nn_usock_setsockopt sock IPPROTO_TCP TCP_NODELAY val sizeof_int))"

definition set_keepidle :: "nn_hdr \<Rightarrow> nn_epbase \<Rightarrow> nn_usock \<Rightarrow> run" where
  "set_keepidle h source sock =
     (let (val, sz) = source (NN_TCP h) (NN_TCP_KEEPIDLE h) in
      if sz \<noteq> sizeof_int then Aborted sock
      else if 0 \<le>s val then
        Ok (nn_usock_setsockopt sock IPPROTO_TCP TCP_KEEPIDLE val sizeof_int)
      else Ok sock)"

definition set_keepintvl :: "nn_hdr \<Rightarrow> nn_epbase \<Rightarrow> nn_usock \<Rightarrow> run" where
  "set_keepintvl h source sock =
     (let (val, sz) = source (NN_TCP h) (NN_TCP_KEEPINTVL h) in
      if sz \<noteq> sizeof_int then Aborted sock
      else if 0 \<le>s val then
        Ok (nn_usock_setsockopt sock IPPROTO_TCP TCP_KEEPINTVL val sizeof_int)
      else Ok sock)"

definition set_keepcnt :: "nn_hdr \<Rightarrow> nn_epbase \<Rightarrow> nn_usock \<Rightarrow> run" where
  "set_keepcnt h source sock =
     (let (val, sz) = source (NN_TCP h) (NN_TCP_KEEPCNT h) in
      if sz \<noteq> sizeof_int then Aborted sock
      else if 0 \<le>s val then
        Ok (nn_usock_setsockopt sock IPPROTO_TCP TCP_KEEPCNT val sizeof_int)
      else Ok sock)"

text \<open>
  \<^verbatim>\<open>nn_tcp_set_options (source, sock)\<close>: the blocks one after the other, those under
  \<^verbatim>\<open>#if defined\<close> only where the platform defines the macro.
\<close>

definition nn_tcp_set_options :: "nn_hdr \<Rightarrow> platform \<Rightarrow> nn_epbase \<Rightarrow> nn_usock \<Rightarrow> run" where
  "nn_tcp_set_options h p source sock =
     foldl andthen (Ok sock)
       [set_sndbuf h source,
        set_rcvbuf h source,
        if defined_SO_KEEPALIVE p then set_keepalive h source else Ok,
        if defined_TCP_NODELAY p then set_nodelay h source else Ok,
        if defined_TCP_KEEPIDLE p then set_keepidle h source else Ok,
        if defined_TCP_KEEPINTVL p then set_keepintvl h source else Ok,
        if defined_TCP_KEEPCNT p then set_keepcnt h source else Ok]"

definition calls :: "run \<Rightarrow> usock_call list" where
  "calls r = (case r of Ok sock \<Rightarrow> sock | Aborted sock \<Rightarrow> sock)"

definition returned :: "run \<Rightarrow> bool" where
  "returned r = (case r of Ok sock \<Rightarrow> True | Aborted sock \<Rightarrow> False)"

text \<open>
  The field that an identifier names, with the identifier's name in the specification;
  used to state properties of all four options at once.
\<close>

definition tcp_fields :: "nn_hdr \<Rightarrow> nn_tcp_optset \<Rightarrow> (int32 \<times> int32) list" where
  "tcp_fields h optset =
     [(NN_TCP_NODELAY h, nodelay optset), (NN_TCP_KEEPIDLE h, keepidle optset),
      (NN_TCP_KEEPINTVL h, keepintvl optset), (NN_TCP_KEEPCNT h, keepcnt optset)]"

text \<open>A choice of the header constants and an option set, for the examples.\<close>

definition sample_hdr :: nn_hdr where
  "sample_hdr =
     \<lparr>NN_SOL_SOCKET = 0, NN_SNDBUF = 2, NN_RCVBUF = 3, NN_KEEPALIVE = 15, NN_TCP = - 3,
      NN_TCP_NODELAY = 1, NN_TCP_KEEPIDLE = 2, NN_TCP_KEEPINTVL = 3, NN_TCP_KEEPCNT = 4\<rparr>"

definition default_optset :: nn_tcp_optset where
  "default_optset = \<lparr>nodelay = 0, keepidle = - 1, keepintvl = - 1, keepcnt = - 1\<rparr>"


text \<open>
  The position of an option of the socket in the order in which the specification lists
  the steps: send buffer, receive buffer, keep-alive, no-delay, then the three keep-alive
  knobs.
\<close>

definition step_rank :: "os_option \<Rightarrow> nat" where
  "step_rank name =
     (case name of
        SO_SNDBUF \<Rightarrow> 1 | SO_RCVBUF \<Rightarrow> 2 | SO_KEEPALIVE \<Rightarrow> 3 | TCP_NODELAY \<Rightarrow> 4
      | TCP_KEEPIDLE \<Rightarrow> 5 | TCP_KEEPINTVL \<Rightarrow> 6 | TCP_KEEPCNT \<Rightarrow> 7)"

definition issued :: "os_option \<Rightarrow> run \<Rightarrow> bool" where
  "issued name r = (name \<in> call_name ` set (calls r))"

text \<open>The options that \<^verbatim>\<open>nn_tcp_set_options\<close> reads all have the size of an \<^verbatim>\<open>int\<close>.\<close>

definition int_sized :: "nn_hdr \<Rightarrow> nn_epbase \<Rightarrow> bool" where
  "int_sized h source =
     list_all (\<lambda>(lvl, option). snd (source lvl option) = sizeof_int)
       [(NN_SOL_SOCKET h, NN_SNDBUF h), (NN_SOL_SOCKET h, NN_RCVBUF h),
        (NN_SOL_SOCKET h, NN_KEEPALIVE h), (NN_TCP h, NN_TCP_NODELAY h),
        (NN_TCP h, NN_TCP_KEEPIDLE h), (NN_TCP h, NN_TCP_KEEPINTVL h),
        (NN_TCP h, NN_TCP_KEEPCNT h)]"

text \<open>A platform that defines the five macros, and option stores for the examples.\<close>

definition full_platform :: platform where
  "full_platform =
     \<lparr>defined_SO_KEEPALIVE = True, defined_TCP_NODELAY = True, defined_TCP_KEEPIDLE = True,
      defined_TCP_KEEPINTVL = True, defined_TCP_KEEPCNT = True\<rparr>"

definition store_of :: "((int32 \<times> int32) \<times> int32) list \<Rightarrow> nn_epbase" where
  "store_of kvs lvl option =
     (case map_of kvs (lvl, option) of Some v \<Rightarrow> (v, sizeof_int) | None \<Rightarrow> (0, 0))"

definition sample_store :: "int32 \<Rightarrow> int32 \<Rightarrow> nn_epbase" where
  "sample_store ka idle =
     store_of [((0, 2), 4096), ((0, 3), 8192), ((0, 15), ka),
               ((- 3, 1), 1), ((- 3, 2), idle), ((- 3, 3), - 1), ((- 3, 4), - 1)]"


text \<open>
  The calls made so far are in the order of the steps, and all of them belong to steps
  before the \<open>k\<close>-th.
\<close>

definition ordered_upto :: "nat \<Rightarrow> run \<Rightarrow> bool" where
  "ordered_upto k r =
     (sorted_wrt (<) (map (step_rank \<circ> call_name) (calls r)) \<and>
      list_all (\<lambda>c. step_rank (call_name c) < k) (calls r))"


text \<open>The values that the fields of an option set have in the specification.\<close>

definition optset_in_domain :: "nn_tcp_optset \<Rightarrow> bool" where
  "optset_in_domain optset =
     ((nodelay optset = 0 \<or> nodelay optset = 1) \<and>
      (keepidle optset = - 1 \<or> 0 < sint (keepidle optset)) \<and>
      (keepintvl optset = - 1 \<or> 0 < sint (keepintvl optset)) \<and>
      (keepcnt optset = - 1 \<or> 0 < sint (keepcnt optset)))"

section \<open>Properties of the byte representation\<close>

lemma le_int_le_bytes: "le_int (le_bytes w) = w"
  unfolding le_int_def le_bytes_def
  apply simp
  apply (rule bit_word_eqI)
  subgoal for n
    apply (cases "n < 8"; cases "n < 16"; cases "n < 24")
    apply (auto simp: bit_simps)
    done
  done

lemma length_le_bytes: "length (le_bytes w) = 4"
  by (simp add: le_bytes_def)

lemma load_store_int: "load_int bo (store_int bo w) = w"
  by (cases bo) (simp_all add: load_int_def store_int_def le_int_le_bytes)

lemma length_store_int: "length (store_int bo w) = sizeof_int"
  by (cases bo) (simp_all add: store_int_def length_le_bytes sizeof_int_def)

section \<open>Properties of the option set\<close>

text \<open>
  C5. For every option identifier, known or not, and every argument whose length is not
  the width of an \<^verbatim>\<open>int\<close>, \<^verbatim>\<open>setopt\<close> fails with \<open>EINVAL\<close> (and leaves the option set as
  it is): the length is checked before the identifier, so that an unknown identifier
  with an argument of the wrong length gives \<open>EINVAL\<close>, not \<open>ENOPROTOOPT\<close>.
\<close>

theorem setopt_wrong_length:
  assumes "length optval \<noteq> sizeof_int"
  shows "nn_tcp_optset_setopt h bo optset option optval = (Inl EINVAL, optset)"
  using assms by (simp add: nn_tcp_optset_setopt_def)

theorem setopt_wrong_length_witness:
  "length [1 :: byte, 0] \<noteq> sizeof_int \<and>
   nn_tcp_optset_setopt sample_hdr Little_Endian default_optset 77 [1, 0]
     = (Inl EINVAL, default_optset)"
proof -
  have len: "length [1 :: byte, 0] \<noteq> sizeof_int"
    by (simp add: sizeof_int_def)
  show ?thesis
    using len setopt_wrong_length [OF len] by simp
qed

lemma sample_hdr_distinct: "tcp_options_distinct sample_hdr"
  by (simp add: tcp_options_distinct_def sample_hdr_def)

lemma sample_hdr_simps:
  "NN_TCP_NODELAY sample_hdr = 1" "NN_TCP_KEEPIDLE sample_hdr = 2"
  "NN_TCP_KEEPINTVL sample_hdr = 3" "NN_TCP_KEEPCNT sample_hdr = 4"
  "NN_SOL_SOCKET sample_hdr = 0" "NN_SNDBUF sample_hdr = 2" "NN_RCVBUF sample_hdr = 3"
  "NN_KEEPALIVE sample_hdr = 15" "NN_TCP sample_hdr = - 3"
  by (simp_all add: sample_hdr_def)

text \<open>
  C4. For an argument of the width of an \<^verbatim>\<open>int\<close> that holds the integer \<open>v\<close>:
  \<^verbatim>\<open>setopt\<close> of \<open>NN_TCP_NODELAY\<close> fails with \<open>EINVAL\<close> exactly when \<open>v\<close> is neither 0 nor 1,
  and succeeds otherwise; \<^verbatim>\<open>setopt\<close> of \<open>NN_TCP_KEEPIDLE\<close>, \<open>NN_TCP_KEEPINTVL\<close> or
  \<open>NN_TCP_KEEPCNT\<close> fails with \<open>EINVAL\<close> exactly when \<open>v \<le> 0\<close> (so also for \<open>v = -1\<close>) and
  succeeds for every positive \<open>v\<close>.
\<close>

theorem setopt_domain_check:
  assumes "tcp_options_distinct h" and "length optval = sizeof_int"
  shows
    "(fst (nn_tcp_optset_setopt h bo optset (NN_TCP_NODELAY h) optval) = Inl EINVAL
        \<longleftrightarrow> load_int bo optval \<noteq> 0 \<and> load_int bo optval \<noteq> 1) \<and>
     (fst (nn_tcp_optset_setopt h bo optset (NN_TCP_NODELAY h) optval) = Inr ()
        \<longleftrightarrow> load_int bo optval = 0 \<or> load_int bo optval = 1) \<and>
     (\<forall>option \<in> {NN_TCP_KEEPIDLE h, NN_TCP_KEEPINTVL h, NN_TCP_KEEPCNT h}.
        (fst (nn_tcp_optset_setopt h bo optset option optval) = Inl EINVAL
           \<longleftrightarrow> sint (load_int bo optval) \<le> 0) \<and>
        (fst (nn_tcp_optset_setopt h bo optset option optval) = Inr ()
           \<longleftrightarrow> 0 < sint (load_int bo optval)) \<and>
        (load_int bo optval = - 1 \<longrightarrow>
           fst (nn_tcp_optset_setopt h bo optset option optval) = Inl EINVAL))"
  using assms
  by (auto simp: nn_tcp_optset_setopt_def tcp_options_distinct_def Let_def word_sle_eq)

lemma load_int_samples:
  "load_int Little_Endian [5, 0, 0, 0] = 5"
  "load_int Little_Endian [255, 255, 255, 255] = - 1"
  "load_int Little_Endian [1, 0, 0, 0] = 1"
  by code_simp+

theorem setopt_domain_check_witness:
  "tcp_options_distinct sample_hdr \<and> length [255 :: byte, 255, 255, 255] = sizeof_int \<and>
   fst (nn_tcp_optset_setopt sample_hdr Little_Endian default_optset
          (NN_TCP_KEEPIDLE sample_hdr) [255, 255, 255, 255]) = Inl EINVAL \<and>
   fst (nn_tcp_optset_setopt sample_hdr Little_Endian default_optset
          (NN_TCP_NODELAY sample_hdr) [255, 255, 255, 255]) = Inl EINVAL"
proof -
  have len: "length [255 :: byte, 255, 255, 255] = sizeof_int"
    by (simp add: sizeof_int_def)
  show ?thesis
    using sample_hdr_distinct len
      setopt_domain_check [OF sample_hdr_distinct len, of Little_Endian default_optset]
    by (simp add: load_int_samples)
qed

lemma getopt_known:
  assumes "tcp_options_distinct h" and "(option, field) \<in> set (tcp_fields h optset)"
  shows "nn_tcp_optset_getopt h bo optset option optval =
           (Inr (), memcpy optval (store_int bo field) (min (length optval) sizeof_int),
            sizeof_int)"
  using assms
  by (auto simp: nn_tcp_optset_getopt_def tcp_fields_def tcp_options_distinct_def Let_def
      min_def)

lemma memcpy_length:
  "n \<le> length dst \<Longrightarrow> n \<le> length src \<Longrightarrow> length (memcpy dst src n) = length dst"
  by (simp add: memcpy_def min_def)

lemma memcpy_take: "n \<le> length src \<Longrightarrow> take n (memcpy dst src n) = take n src"
  by (simp add: memcpy_def)

lemma memcpy_drop: "n \<le> length src \<Longrightarrow> drop n (memcpy dst src n) = drop n dst"
  by (simp add: memcpy_def)

text \<open>
  C6. For each of the four identifiers and a destination of any capacity \<open>c\<close>,
  \<^verbatim>\<open>getopt\<close> succeeds, the first \<open>min c (sizeof (int))\<close> bytes of the destination are those
  of the stored value, the rest of the destination is as before, and the size reported
  is \<open>sizeof (int)\<close> whatever \<open>c\<close> is, also when the copy is truncated.
\<close>

theorem getopt_copies_min:
  assumes "tcp_options_distinct h" and "(option, field) \<in> set (tcp_fields h optset)"
  shows "\<exists>optval'.
           nn_tcp_optset_getopt h bo optset option optval = (Inr (), optval', sizeof_int) \<and>
           length optval' = length optval \<and>
           take (min (length optval) sizeof_int) optval' =
             take (min (length optval) sizeof_int) (store_int bo field) \<and>
           drop (min (length optval) sizeof_int) optval' =
             drop (min (length optval) sizeof_int) optval"
proof -
  have "min (length optval) sizeof_int \<le> length optval"
    and "min (length optval) sizeof_int \<le> length (store_int bo field)"
    by (simp_all add: length_store_int)
  then show ?thesis
    unfolding getopt_known [OF assms]
    by (simp add: memcpy_length memcpy_take memcpy_drop)
qed

lemma store_int_samples:
  "store_int Little_Endian (- 1) = [255, 255, 255, 255]"
  "store_int Little_Endian 0 = [0, 0, 0, 0]"
  "store_int Little_Endian 1 = [1, 0, 0, 0]"
  "store_int Little_Endian 5 = [5, 0, 0, 0]"
  by code_simp+

theorem getopt_copies_min_witness:
  "tcp_options_distinct sample_hdr \<and>
   (NN_TCP_KEEPIDLE sample_hdr, - 1) \<in> set (tcp_fields sample_hdr default_optset) \<and>
   nn_tcp_optset_getopt sample_hdr Little_Endian default_optset
     (NN_TCP_KEEPIDLE sample_hdr) [7, 7] = (Inr (), [255, 255], 4)"
proof -
  have mem: "(NN_TCP_KEEPIDLE sample_hdr, - 1) \<in> set (tcp_fields sample_hdr default_optset)"
    by (simp add: tcp_fields_def default_optset_def)
  from getopt_copies_min [OF sample_hdr_distinct mem, of Little_Endian "[7, 7]"]
  obtain optval' where
    r: "nn_tcp_optset_getopt sample_hdr Little_Endian default_optset
          (NN_TCP_KEEPIDLE sample_hdr) [7, 7] = (Inr (), optval', sizeof_int)"
    and l: "length optval' = 2" and t: "take 2 optval' = [255, 255]"
    by (auto simp: sizeof_int_def store_int_samples)
  from l t have "optval' = [255, 255]"
    by simp
  with r show ?thesis
    using sample_hdr_distinct mem by (simp add: sizeof_int_def)
qed

lemma setopt_stores:
  assumes "tcp_options_distinct h" and "length optval = sizeof_int"
    and "option = NN_TCP_NODELAY h \<and> (load_int bo optval = 0 \<or> load_int bo optval = 1) \<or>
         option \<in> {NN_TCP_KEEPIDLE h, NN_TCP_KEEPINTVL h, NN_TCP_KEEPCNT h} \<and>
           0 < sint (load_int bo optval)"
  shows "\<exists>optset'. nn_tcp_optset_setopt h bo optset option optval = (Inr (), optset') \<and>
           (option, load_int bo optval) \<in> set (tcp_fields h optset')"
  using assms
  by (auto simp: nn_tcp_optset_setopt_def tcp_fields_def tcp_options_distinct_def Let_def
      word_sle_eq)

lemma getopt_full_capacity:
  assumes "tcp_options_distinct h" and "(option, field) \<in> set (tcp_fields h optset)"
    and "sizeof_int \<le> length optval"
  shows "\<exists>optval'.
           nn_tcp_optset_getopt h bo optset option optval = (Inr (), optval', sizeof_int) \<and>
           load_int bo (take sizeof_int optval') = field"
proof -
  have "min (length optval) sizeof_int = sizeof_int"
    using assms(3) by simp
  then have "nn_tcp_optset_getopt h bo optset option optval =
      (Inr (), memcpy optval (store_int bo field) sizeof_int, sizeof_int)"
    using getopt_known [OF assms(1,2), of bo optval] by simp
  moreover have "take sizeof_int (memcpy optval (store_int bo field) sizeof_int) =
      store_int bo field"
    by (simp add: memcpy_take length_store_int)
  ultimately show ?thesis
    by (simp add: load_store_int)
qed

text \<open>
  C7. Round trip: \<^verbatim>\<open>setopt\<close> of \<open>NN_TCP_NODELAY\<close> with 0 or 1, or of \<open>NN_TCP_KEEPIDLE\<close>,
  \<open>NN_TCP_KEEPINTVL\<close> or \<open>NN_TCP_KEEPCNT\<close> with a positive value, succeeds, and a
  \<^verbatim>\<open>getopt\<close> of the same identifier that follows, with a destination of at least
  \<open>sizeof (int)\<close> bytes, succeeds and returns the bytes of that value.
\<close>

theorem setopt_getopt_roundtrip:
  assumes "tcp_options_distinct h" and "length optval = sizeof_int"
    and "sizeof_int \<le> length dst"
    and "option = NN_TCP_NODELAY h \<and> (load_int bo optval = 0 \<or> load_int bo optval = 1) \<or>
         option \<in> {NN_TCP_KEEPIDLE h, NN_TCP_KEEPINTVL h, NN_TCP_KEEPCNT h} \<and>
           0 < sint (load_int bo optval)"
  shows "\<exists>optset' dst'.
           nn_tcp_optset_setopt h bo optset option optval = (Inr (), optset') \<and>
           nn_tcp_optset_getopt h bo optset' option dst = (Inr (), dst', sizeof_int) \<and>
           load_int bo (take sizeof_int dst') = load_int bo optval"
proof -
  from setopt_stores [OF assms(1,2,4)] obtain optset' where
    s: "nn_tcp_optset_setopt h bo optset option optval = (Inr (), optset')"
    and m: "(option, load_int bo optval) \<in> set (tcp_fields h optset')"
    by blast
  from getopt_full_capacity [OF assms(1) m assms(3)] obtain dst' where
    "nn_tcp_optset_getopt h bo optset' option dst = (Inr (), dst', sizeof_int)"
    "load_int bo (take sizeof_int dst') = load_int bo optval"
    by blast
  with s show ?thesis
    by blast
qed

theorem setopt_getopt_roundtrip_witness:
  "tcp_options_distinct sample_hdr \<and> length [5 :: byte, 0, 0, 0] = sizeof_int \<and>
   sizeof_int \<le> length [9 :: byte, 9, 9, 9, 9] \<and>
   0 < sint (load_int Little_Endian [5, 0, 0, 0]) \<and>
   (\<exists>optset' dst'.
      nn_tcp_optset_setopt sample_hdr Little_Endian default_optset
        (NN_TCP_KEEPCNT sample_hdr) [5, 0, 0, 0] = (Inr (), optset') \<and>
      nn_tcp_optset_getopt sample_hdr Little_Endian optset'
        (NN_TCP_KEEPCNT sample_hdr) [9, 9, 9, 9, 9] = (Inr (), dst', sizeof_int) \<and>
      load_int Little_Endian (take sizeof_int dst') = 5)"
proof -
  have len: "length [5 :: byte, 0, 0, 0] = sizeof_int"
    and cap: "sizeof_int \<le> length [9 :: byte, 9, 9, 9, 9]"
    and pos: "0 < sint (load_int Little_Endian [5, 0, 0, 0])"
    by (simp_all add: sizeof_int_def load_int_samples)
  have dom: "NN_TCP_KEEPCNT sample_hdr = NN_TCP_NODELAY sample_hdr \<and>
        (load_int Little_Endian [5, 0, 0, 0] = 0 \<or> load_int Little_Endian [5, 0, 0, 0] = 1) \<or>
      NN_TCP_KEEPCNT sample_hdr \<in>
        {NN_TCP_KEEPIDLE sample_hdr, NN_TCP_KEEPINTVL sample_hdr, NN_TCP_KEEPCNT sample_hdr} \<and>
        0 < sint (load_int Little_Endian [5, 0, 0, 0])"
    using pos by simp
  show ?thesis
    using sample_hdr_distinct len cap pos
      setopt_getopt_roundtrip [OF sample_hdr_distinct len cap dom, of default_optset]
    by (simp add: load_int_samples)
qed

text \<open>
  C8. For an identifier that is none of the four, \<^verbatim>\<open>getopt\<close> fails with \<open>ENOPROTOOPT\<close>
  (and writes nothing), and \<^verbatim>\<open>setopt\<close> with an argument of the width of an \<^verbatim>\<open>int\<close> fails
  with \<open>ENOPROTOOPT\<close>.
\<close>

theorem unknown_option_rejected:
  assumes "\<not> tcp_option_known h option"
  shows "nn_tcp_optset_getopt h bo optset option dst = (Inl ENOPROTOOPT, dst, length dst) \<and>
         (length optval = sizeof_int \<longrightarrow>
            nn_tcp_optset_setopt h bo optset option optval = (Inl ENOPROTOOPT, optset))"
  using assms
  by (simp add: tcp_option_known_def nn_tcp_optset_getopt_def nn_tcp_optset_setopt_def Let_def)

theorem unknown_option_rejected_witness:
  "\<not> tcp_option_known sample_hdr 77 \<and> length [1 :: byte, 0, 0, 0] = sizeof_int \<and>
   nn_tcp_optset_getopt sample_hdr Little_Endian default_optset 77 [9, 9, 9, 9]
     = (Inl ENOPROTOOPT, [9, 9, 9, 9], 4) \<and>
   nn_tcp_optset_setopt sample_hdr Little_Endian default_optset 77 [1, 0, 0, 0]
     = (Inl ENOPROTOOPT, default_optset)"
proof -
  have unk: "\<not> tcp_option_known sample_hdr 77"
    by (simp add: tcp_option_known_def sample_hdr_simps)
  have len: "length [1 :: byte, 0, 0, 0] = sizeof_int"
    by (simp add: sizeof_int_def)
  show ?thesis
    using unk len
      unknown_option_rejected [OF unk, of Little_Endian default_optset "[9, 9, 9, 9]"
        "[1, 0, 0, 0]"]
    by simp
qed

text \<open>
  C9. An option set that \<^verbatim>\<open>nn_tcp_optset ()\<close> returns holds the defaults: \<open>nodelay\<close> is 0,
  \<open>keepidle\<close>, \<open>keepintvl\<close> and \<open>keepcnt\<close> are -1; and \<^verbatim>\<open>getopt\<close> on it, with a
  destination of at least \<open>sizeof (int)\<close> bytes, returns these values.
\<close>

theorem fresh_optset_defaults:
  assumes "nn_tcp_optset alloc_ok = Some optset"
    and "tcp_options_distinct h" and "sizeof_int \<le> length dst"
  shows "nodelay optset = 0 \<and> keepidle optset = - 1 \<and> keepintvl optset = - 1 \<and>
         keepcnt optset = - 1 \<and>
         (\<exists>dst'. nn_tcp_optset_getopt h bo optset (NN_TCP_NODELAY h) dst =
                    (Inr (), dst', sizeof_int) \<and>
                  load_int bo (take sizeof_int dst') = 0) \<and>
         (\<exists>dst'. nn_tcp_optset_getopt h bo optset (NN_TCP_KEEPIDLE h) dst =
                    (Inr (), dst', sizeof_int) \<and>
                  load_int bo (take sizeof_int dst') = - 1) \<and>
         (\<exists>dst'. nn_tcp_optset_getopt h bo optset (NN_TCP_KEEPINTVL h) dst =
                    (Inr (), dst', sizeof_int) \<and>
                  load_int bo (take sizeof_int dst') = - 1) \<and>
         (\<exists>dst'. nn_tcp_optset_getopt h bo optset (NN_TCP_KEEPCNT h) dst =
                    (Inr (), dst', sizeof_int) \<and>
                  load_int bo (take sizeof_int dst') = - 1)"
proof -
  from assms(1) have o: "optset = \<lparr>nodelay = 0, keepidle = - 1, keepintvl = - 1, keepcnt = - 1\<rparr>"
    by (simp add: nn_tcp_optset_def split: if_splits)
  then have f: "tcp_fields h optset =
      [(NN_TCP_NODELAY h, 0), (NN_TCP_KEEPIDLE h, - 1), (NN_TCP_KEEPINTVL h, - 1),
       (NN_TCP_KEEPCNT h, - 1)]"
    by (simp add: tcp_fields_def)
  have "(NN_TCP_NODELAY h, 0) \<in> set (tcp_fields h optset)"
    and "(NN_TCP_KEEPIDLE h, - 1) \<in> set (tcp_fields h optset)"
    and "(NN_TCP_KEEPINTVL h, - 1) \<in> set (tcp_fields h optset)"
    and "(NN_TCP_KEEPCNT h, - 1) \<in> set (tcp_fields h optset)"
    by (simp_all add: f)
  then show ?thesis
    using o getopt_full_capacity [OF assms(2) _ assms(3), of _ _ optset bo]
    by simp
qed

theorem fresh_optset_defaults_witness:
  "nn_tcp_optset True = Some default_optset \<and> tcp_options_distinct sample_hdr \<and>
   sizeof_int \<le> length [9 :: byte, 9, 9, 9] \<and>
   keepidle default_optset = - 1 \<and>
   (\<exists>dst'. nn_tcp_optset_getopt sample_hdr Little_Endian default_optset
              (NN_TCP_KEEPIDLE sample_hdr) [9, 9, 9, 9] = (Inr (), dst', sizeof_int) \<and>
            load_int Little_Endian (take sizeof_int dst') = - 1)"
proof -
  have a: "nn_tcp_optset True = Some default_optset"
    by (simp add: nn_tcp_optset_def default_optset_def)
  have cap: "sizeof_int \<le> length [9 :: byte, 9, 9, 9]"
    by (simp add: sizeof_int_def)
  show ?thesis
    using a cap sample_hdr_distinct
      fresh_optset_defaults [OF a sample_hdr_distinct cap, of Little_Endian]
    by simp
qed

text \<open>
  C10. Whatever the option set, the identifier and the argument are: a \<^verbatim>\<open>setopt\<close> that
  returns an error leaves the four fields as they were, and a \<^verbatim>\<open>setopt\<close> that succeeds
  stores the value of the argument in the field that the identifier names and leaves
  the other three fields as they were.
\<close>

theorem setopt_frame:
  assumes "nn_tcp_optset_setopt h bo optset option optval = (rc, optset')"
  shows "(\<forall>e. rc = Inl e \<longrightarrow> optset' = optset) \<and>
         (rc = Inr () \<and> tcp_options_distinct h \<longrightarrow>
            tcp_option_known h option \<and>
            (option, load_int bo optval) \<in> set (tcp_fields h optset') \<and>
            (option \<noteq> NN_TCP_NODELAY h \<longrightarrow> nodelay optset' = nodelay optset) \<and>
            (option \<noteq> NN_TCP_KEEPIDLE h \<longrightarrow> keepidle optset' = keepidle optset) \<and>
            (option \<noteq> NN_TCP_KEEPINTVL h \<longrightarrow> keepintvl optset' = keepintvl optset) \<and>
            (option \<noteq> NN_TCP_KEEPCNT h \<longrightarrow> keepcnt optset' = keepcnt optset))"
proof (intro conjI allI impI)
  fix e
  assume "rc = Inl e"
  with assms show "optset' = optset"
    by (auto simp: nn_tcp_optset_setopt_def Let_def split: if_splits)
next
  assume ok: "rc = Inr () \<and> tcp_options_distinct h"
  with assms show "tcp_option_known h option"
    by (auto simp: nn_tcp_optset_setopt_def tcp_option_known_def Let_def split: if_splits)
  from ok assms show "(option, load_int bo optval) \<in> set (tcp_fields h optset')"
    by (auto simp: nn_tcp_optset_setopt_def tcp_fields_def tcp_options_distinct_def Let_def
        split: if_splits)
next
  assume "rc = Inr () \<and> tcp_options_distinct h" and "option \<noteq> NN_TCP_NODELAY h"
  with assms show "nodelay optset' = nodelay optset"
    by (auto simp: nn_tcp_optset_setopt_def Let_def split: if_splits)
next
  assume "rc = Inr () \<and> tcp_options_distinct h" and "option \<noteq> NN_TCP_KEEPIDLE h"
  with assms show "keepidle optset' = keepidle optset"
    by (auto simp: nn_tcp_optset_setopt_def Let_def split: if_splits)
next
  assume "rc = Inr () \<and> tcp_options_distinct h" and "option \<noteq> NN_TCP_KEEPINTVL h"
  with assms show "keepintvl optset' = keepintvl optset"
    by (auto simp: nn_tcp_optset_setopt_def Let_def split: if_splits)
next
  assume "rc = Inr () \<and> tcp_options_distinct h" and "option \<noteq> NN_TCP_KEEPCNT h"
  with assms show "keepcnt optset' = keepcnt optset"
    by (auto simp: nn_tcp_optset_setopt_def Let_def split: if_splits)
qed

lemma setopt_samples:
  "nn_tcp_optset_setopt sample_hdr Little_Endian default_optset 2 [5, 0, 0, 0] =
     (Inr (), default_optset\<lparr>keepidle := 5\<rparr>)"
  "nn_tcp_optset_setopt sample_hdr Little_Endian default_optset 2 [255, 255, 255, 255] =
     (Inl EINVAL, default_optset)"
  by (simp_all add: nn_tcp_optset_setopt_def sample_hdr_simps sizeof_int_def load_int_samples
      word_sle_eq)

theorem setopt_frame_witness:
  "nn_tcp_optset_setopt sample_hdr Little_Endian default_optset 2 [5, 0, 0, 0] =
     (Inr (), default_optset\<lparr>keepidle := 5\<rparr>) \<and>
   tcp_options_distinct sample_hdr \<and> (2 :: int32) \<noteq> NN_TCP_NODELAY sample_hdr \<and>
   nodelay (default_optset\<lparr>keepidle := 5\<rparr>) = nodelay default_optset \<and>
   keepcnt (default_optset\<lparr>keepidle := 5\<rparr>) = keepcnt default_optset \<and>
   (2, load_int Little_Endian [5, 0, 0, 0])
     \<in> set (tcp_fields sample_hdr (default_optset\<lparr>keepidle := 5\<rparr>))"
  using setopt_frame [OF setopt_samples(1)] sample_hdr_distinct
  by (simp add: sample_hdr_simps setopt_samples(1))

section \<open>Properties of the propagation onto the socket\<close>

lemma andthen_Ok [simp]: "andthen (Ok sock) f = f sock"
  by (simp add: andthen_def)

lemma andthen_Aborted [simp]: "andthen (Aborted sock) f = Aborted sock"
  by (simp add: andthen_def)

lemma sample_run_full:
  "nn_tcp_set_options sample_hdr full_platform (sample_store 0 (- 1)) [] =
     Ok [Setsockopt SOL_SOCKET SO_SNDBUF 4096 4, Setsockopt SOL_SOCKET SO_RCVBUF 8192 4,
         Setsockopt SOL_SOCKET SO_KEEPALIVE 0 4, Setsockopt IPPROTO_TCP TCP_NODELAY 1 4]"
  by (simp add: nn_tcp_set_options_def sample_hdr_simps full_platform_def sample_store_def
      store_of_def set_sndbuf_def set_rcvbuf_def set_keepalive_def set_nodelay_def
      set_keepidle_def set_keepintvl_def set_keepcnt_def nn_usock_setsockopt_def
      sizeof_int_def word_sle_eq)

lemma set_options_returns:
  assumes "int_sized h source"
  shows "nn_tcp_set_options h p source sock =
     Ok (sock @
       [Setsockopt SOL_SOCKET SO_SNDBUF (fst (source (NN_SOL_SOCKET h) (NN_SNDBUF h))) sizeof_int,
        Setsockopt SOL_SOCKET SO_RCVBUF (fst (source (NN_SOL_SOCKET h) (NN_RCVBUF h))) sizeof_int] @
       (if defined_SO_KEEPALIVE p
        then [Setsockopt SOL_SOCKET SO_KEEPALIVE
                (fst (source (NN_SOL_SOCKET h) (NN_KEEPALIVE h))) sizeof_int]
        else []) @
       (if defined_TCP_NODELAY p
        then [Setsockopt IPPROTO_TCP TCP_NODELAY
                (fst (source (NN_TCP h) (NN_TCP_NODELAY h))) sizeof_int]
        else []) @
       (if defined_TCP_KEEPIDLE p \<and> 0 \<le>s fst (source (NN_TCP h) (NN_TCP_KEEPIDLE h))
        then [Setsockopt IPPROTO_TCP TCP_KEEPIDLE
                (fst (source (NN_TCP h) (NN_TCP_KEEPIDLE h))) sizeof_int]
        else []) @
       (if defined_TCP_KEEPINTVL p \<and> 0 \<le>s fst (source (NN_TCP h) (NN_TCP_KEEPINTVL h))
        then [Setsockopt IPPROTO_TCP TCP_KEEPINTVL
                (fst (source (NN_TCP h) (NN_TCP_KEEPINTVL h))) sizeof_int]
        else []) @
       (if defined_TCP_KEEPCNT p \<and> 0 \<le>s fst (source (NN_TCP h) (NN_TCP_KEEPCNT h))
        then [Setsockopt IPPROTO_TCP TCP_KEEPCNT
                (fst (source (NN_TCP h) (NN_TCP_KEEPCNT h))) sizeof_int]
        else []))"
proof -
  have sz: "snd (source (NN_SOL_SOCKET h) (NN_SNDBUF h)) = sizeof_int"
    "snd (source (NN_SOL_SOCKET h) (NN_RCVBUF h)) = sizeof_int"
    "snd (source (NN_SOL_SOCKET h) (NN_KEEPALIVE h)) = sizeof_int"
    "snd (source (NN_TCP h) (NN_TCP_NODELAY h)) = sizeof_int"
    "snd (source (NN_TCP h) (NN_TCP_KEEPIDLE h)) = sizeof_int"
    "snd (source (NN_TCP h) (NN_TCP_KEEPINTVL h)) = sizeof_int"
    "snd (source (NN_TCP h) (NN_TCP_KEEPCNT h)) = sizeof_int"
    using assms by (simp_all add: int_sized_def)
  have steps:
    "\<And>s. set_sndbuf h source s =
       Ok (s @ [Setsockopt SOL_SOCKET SO_SNDBUF
                  (fst (source (NN_SOL_SOCKET h) (NN_SNDBUF h))) sizeof_int])"
    "\<And>s. set_rcvbuf h source s =
       Ok (s @ [Setsockopt SOL_SOCKET SO_RCVBUF
                  (fst (source (NN_SOL_SOCKET h) (NN_RCVBUF h))) sizeof_int])"
    "\<And>s. set_keepalive h source s =
       Ok (s @ [Setsockopt SOL_SOCKET SO_KEEPALIVE
                  (fst (source (NN_SOL_SOCKET h) (NN_KEEPALIVE h))) sizeof_int])"
    "\<And>s. set_nodelay h source s =
       Ok (s @ [Setsockopt IPPROTO_TCP TCP_NODELAY
                  (fst (source (NN_TCP h) (NN_TCP_NODELAY h))) sizeof_int])"
    "\<And>s. set_keepidle h source s =
       Ok (s @ (if 0 \<le>s fst (source (NN_TCP h) (NN_TCP_KEEPIDLE h))
                then [Setsockopt IPPROTO_TCP TCP_KEEPIDLE
                        (fst (source (NN_TCP h) (NN_TCP_KEEPIDLE h))) sizeof_int]
                else []))"
    "\<And>s. set_keepintvl h source s =
       Ok (s @ (if 0 \<le>s fst (source (NN_TCP h) (NN_TCP_KEEPINTVL h))
                then [Setsockopt IPPROTO_TCP TCP_KEEPINTVL
                        (fst (source (NN_TCP h) (NN_TCP_KEEPINTVL h))) sizeof_int]
                else []))"
    "\<And>s. set_keepcnt h source s =
       Ok (s @ (if 0 \<le>s fst (source (NN_TCP h) (NN_TCP_KEEPCNT h))
                then [Setsockopt IPPROTO_TCP TCP_KEEPCNT
                        (fst (source (NN_TCP h) (NN_TCP_KEEPCNT h))) sizeof_int]
                else []))"
    by (simp_all add: set_sndbuf_def set_rcvbuf_def set_keepalive_def set_nodelay_def
        set_keepidle_def set_keepintvl_def set_keepcnt_def nn_usock_setsockopt_def
        split_beta sz)
  show ?thesis
    by (simp add: nn_tcp_set_options_def steps)
qed

lemma ordered_upto_mono: "ordered_upto k r \<Longrightarrow> k \<le> k' \<Longrightarrow> ordered_upto k' r"
  by (auto simp: ordered_upto_def list_all_iff)



lemma ordered_upto_andthen:
  assumes "ordered_upto k r"
    and "\<And>sock. ordered_upto k (Ok sock) \<Longrightarrow> ordered_upto (Suc k) (f sock)"
  shows "ordered_upto (Suc k) (andthen r f)"
proof (cases r)
  case (Ok sock)
  with assms show ?thesis by simp
next
  case (Aborted sock)
  with assms(1) show ?thesis
    by (simp add: ordered_upto_mono)
qed

lemma ordered_upto_skip: "ordered_upto k (Ok sock) \<Longrightarrow> ordered_upto (Suc k) (Ok sock)"
  by (simp add: ordered_upto_mono)




lemma issued_Ok: "issued name (Ok sock) \<longleftrightarrow> name \<in> set (map call_name sock)"
  by (simp add: issued_def calls_def)

lemma issued_optional: "name \<in> f ` {x. x = c \<and> b} \<longleftrightarrow> b \<and> name = f c"
  by auto

lemma full_platform_simps:
  "defined_SO_KEEPALIVE full_platform" "defined_TCP_NODELAY full_platform"
  "defined_TCP_KEEPIDLE full_platform" "defined_TCP_KEEPINTVL full_platform"
  "defined_TCP_KEEPCNT full_platform"
  by (simp_all add: full_platform_def)

lemma sample_store_int_sized: "int_sized sample_hdr (sample_store ka idle)"
  by (simp add: int_sized_def sample_hdr_simps sample_store_def store_of_def)

lemma sample_store_values:
  "sample_store ka idle (NN_SOL_SOCKET sample_hdr) (NN_SNDBUF sample_hdr) = (4096, sizeof_int)"
  "sample_store ka idle (NN_SOL_SOCKET sample_hdr) (NN_RCVBUF sample_hdr) = (8192, sizeof_int)"
  "sample_store ka idle (NN_SOL_SOCKET sample_hdr) (NN_KEEPALIVE sample_hdr) = (ka, sizeof_int)"
  "sample_store ka idle (NN_TCP sample_hdr) (NN_TCP_NODELAY sample_hdr) = (1, sizeof_int)"
  "sample_store ka idle (NN_TCP sample_hdr) (NN_TCP_KEEPIDLE sample_hdr) = (idle, sizeof_int)"
  "sample_store ka idle (NN_TCP sample_hdr) (NN_TCP_KEEPINTVL sample_hdr) = (- 1, sizeof_int)"
  "sample_store ka idle (NN_TCP sample_hdr) (NN_TCP_KEEPCNT sample_hdr) = (- 1, sizeof_int)"
  by (simp_all add: sample_hdr_simps sample_store_def store_of_def)



lemma filter_optional:
  "filter P (if b then [c] else []) = (if b \<and> P c then [c] else [])"
  by simp

lemma sample_run_no_nodelay:
  "nn_tcp_set_options sample_hdr (full_platform\<lparr>defined_TCP_NODELAY := False\<rparr>)
     (sample_store 0 (- 1)) [] =
     Ok [Setsockopt SOL_SOCKET SO_SNDBUF 4096 4, Setsockopt SOL_SOCKET SO_RCVBUF 8192 4,
         Setsockopt SOL_SOCKET SO_KEEPALIVE 0 4]"
  by (simp add: set_options_returns [OF sample_store_int_sized] sample_store_values
      full_platform_def word_sle_eq sizeof_int_def)

subsection \<open>The values of an option set\<close>

text \<open>
  The fields of an option set stay in their domains: the defaults are in them, and
  \<^verbatim>\<open>setopt\<close> keeps them there, so that a keep-alive field is -1 or positive. On such
  values the guard \<^verbatim>\<open>val >= 0\<close> of \<^verbatim>\<open>nn_tcp_set_options\<close> and the test "is not -1" agree.
\<close>

lemma fresh_optset_in_domain: "nn_tcp_optset alloc_ok = Some optset \<Longrightarrow> optset_in_domain optset"
  by (auto simp: nn_tcp_optset_def optset_in_domain_def split: if_splits)

lemma setopt_in_domain:
  assumes "optset_in_domain optset"
    and "nn_tcp_optset_setopt h bo optset option optval = (rc, optset')"
  shows "optset_in_domain optset'"
  using assms
  by (auto simp: nn_tcp_optset_setopt_def optset_in_domain_def Let_def word_sle_eq
      split: if_splits)

lemma guard_in_domain:
  fixes v :: int32
  assumes "v = - 1 \<or> 0 < sint v"
  shows "0 \<le>s v \<longleftrightarrow> v \<noteq> - 1"
  using assms by (auto simp: word_sle_eq)

subsection \<open>The calls on the socket\<close>



text \<open>
  C2. The store resolves keep-idle, keep-interval and keep-count to the fields of an
  option set, which are -1 or positive. When every option read has the size of an
  \<^verbatim>\<open>int\<close>, the function returns, and for each of the three knobs on its own: where the
  platform defines the macro of the knob and the value is not -1, exactly one call is
  made for the knob, at the level of TCP and with that value; where the platform does
  not define the macro or the value is -1, no call is made for the knob. A knob that is
  skipped is no error and does not change what happens to the other knobs.
\<close>

theorem keepalive_knobs_sentinel:
  assumes "int_sized h source" and "optset_in_domain optset"
    and "fst (source (NN_TCP h) (NN_TCP_KEEPIDLE h)) = keepidle optset"
    and "fst (source (NN_TCP h) (NN_TCP_KEEPINTVL h)) = keepintvl optset"
    and "fst (source (NN_TCP h) (NN_TCP_KEEPCNT h)) = keepcnt optset"
  shows "returned (nn_tcp_set_options h p source []) \<and>
     filter (\<lambda>c. call_name c = TCP_KEEPIDLE) (calls (nn_tcp_set_options h p source [])) =
       (if defined_TCP_KEEPIDLE p \<and> keepidle optset \<noteq> - 1
        then [Setsockopt IPPROTO_TCP TCP_KEEPIDLE (keepidle optset) sizeof_int] else []) \<and>
     filter (\<lambda>c. call_name c = TCP_KEEPINTVL) (calls (nn_tcp_set_options h p source [])) =
       (if defined_TCP_KEEPINTVL p \<and> keepintvl optset \<noteq> - 1
        then [Setsockopt IPPROTO_TCP TCP_KEEPINTVL (keepintvl optset) sizeof_int] else []) \<and>
     filter (\<lambda>c. call_name c = TCP_KEEPCNT) (calls (nn_tcp_set_options h p source [])) =
       (if defined_TCP_KEEPCNT p \<and> keepcnt optset \<noteq> - 1
        then [Setsockopt IPPROTO_TCP TCP_KEEPCNT (keepcnt optset) sizeof_int] else [])"
proof -
  note r = set_options_returns [OF assms(1), of p "[]"]
  have g: "0 \<le>s keepidle optset \<longleftrightarrow> keepidle optset \<noteq> - 1"
    "0 \<le>s keepintvl optset \<longleftrightarrow> keepintvl optset \<noteq> - 1"
    "0 \<le>s keepcnt optset \<longleftrightarrow> keepcnt optset \<noteq> - 1"
    using assms(2) by (simp_all add: optset_in_domain_def guard_in_domain)
  have "returned (nn_tcp_set_options h p source [])"
    by (simp add: r returned_def)
  moreover have
    "filter (\<lambda>c. call_name c = TCP_KEEPIDLE) (calls (nn_tcp_set_options h p source [])) =
       (if defined_TCP_KEEPIDLE p \<and> keepidle optset \<noteq> - 1
        then [Setsockopt IPPROTO_TCP TCP_KEEPIDLE (keepidle optset) sizeof_int] else [])"
    by (simp add: r calls_def filter_optional assms(3-5) g)
  moreover have
    "filter (\<lambda>c. call_name c = TCP_KEEPINTVL) (calls (nn_tcp_set_options h p source [])) =
       (if defined_TCP_KEEPINTVL p \<and> keepintvl optset \<noteq> - 1
        then [Setsockopt IPPROTO_TCP TCP_KEEPINTVL (keepintvl optset) sizeof_int] else [])"
    by (simp add: r calls_def filter_optional assms(3-5) g)
  moreover have
    "filter (\<lambda>c. call_name c = TCP_KEEPCNT) (calls (nn_tcp_set_options h p source [])) =
       (if defined_TCP_KEEPCNT p \<and> keepcnt optset \<noteq> - 1
        then [Setsockopt IPPROTO_TCP TCP_KEEPCNT (keepcnt optset) sizeof_int] else [])"
    by (simp add: r calls_def filter_optional assms(3-5) g)
  ultimately show ?thesis
    by blast
qed

theorem keepalive_knobs_sentinel_witness:
  "int_sized sample_hdr (sample_store 0 7) \<and>
   optset_in_domain (default_optset\<lparr>keepidle := 7\<rparr>) \<and>
   fst (sample_store 0 7 (NN_TCP sample_hdr) (NN_TCP_KEEPIDLE sample_hdr)) = 7 \<and>
   fst (sample_store 0 7 (NN_TCP sample_hdr) (NN_TCP_KEEPINTVL sample_hdr)) = - 1 \<and>
   fst (sample_store 0 7 (NN_TCP sample_hdr) (NN_TCP_KEEPCNT sample_hdr)) = - 1 \<and>
   returned (nn_tcp_set_options sample_hdr full_platform (sample_store 0 7) []) \<and>
   filter (\<lambda>c. call_name c = TCP_KEEPIDLE)
     (calls (nn_tcp_set_options sample_hdr full_platform (sample_store 0 7) [])) =
     [Setsockopt IPPROTO_TCP TCP_KEEPIDLE 7 sizeof_int] \<and>
   filter (\<lambda>c. call_name c = TCP_KEEPINTVL)
     (calls (nn_tcp_set_options sample_hdr full_platform (sample_store 0 7) [])) = []"
proof -
  have d: "optset_in_domain (default_optset\<lparr>keepidle := 7\<rparr>)"
    by (simp add: optset_in_domain_def default_optset_def)
  have v: "fst (sample_store 0 7 (NN_TCP sample_hdr) (NN_TCP_KEEPIDLE sample_hdr)) =
        keepidle (default_optset\<lparr>keepidle := 7\<rparr>)"
    "fst (sample_store 0 7 (NN_TCP sample_hdr) (NN_TCP_KEEPINTVL sample_hdr)) =
        keepintvl (default_optset\<lparr>keepidle := 7\<rparr>)"
    "fst (sample_store 0 7 (NN_TCP sample_hdr) (NN_TCP_KEEPCNT sample_hdr)) =
        keepcnt (default_optset\<lparr>keepidle := 7\<rparr>)"
    by (simp_all add: sample_store_values default_optset_def)
  show ?thesis
    using keepalive_knobs_sentinel [OF sample_store_int_sized d v, of full_platform] d
    by (simp add: sample_store_values sample_store_int_sized full_platform_simps
        default_optset_def)
qed

text \<open>
  C3, as the code has it. For an option store that resolves the send buffer to 4096,
  the receive buffer to 8192, no-delay to 1 and keep-idle, keep-interval and keep-count
  to -1, the function returns after these calls, in this order: send buffer, receive
  buffer, the keep-alive flag where the platform defines \<open>SO_KEEPALIVE\<close>, and no-delay
  where the platform defines \<open>TCP_NODELAY\<close>. The number of calls is two, plus one where
  the platform defines \<open>SO_KEEPALIVE\<close>, plus one where it defines \<open>TCP_NODELAY\<close>. There is
  no call for keep-idle, keep-interval or keep-count.
\<close>

theorem end_to_end_calls:
  assumes "source (NN_SOL_SOCKET h) (NN_SNDBUF h) = (4096, sizeof_int)"
    and "source (NN_SOL_SOCKET h) (NN_RCVBUF h) = (8192, sizeof_int)"
    and "source (NN_SOL_SOCKET h) (NN_KEEPALIVE h) = (ka, sizeof_int)"
    and "source (NN_TCP h) (NN_TCP_NODELAY h) = (1, sizeof_int)"
    and "source (NN_TCP h) (NN_TCP_KEEPIDLE h) = (- 1, sizeof_int)"
    and "source (NN_TCP h) (NN_TCP_KEEPINTVL h) = (- 1, sizeof_int)"
    and "source (NN_TCP h) (NN_TCP_KEEPCNT h) = (- 1, sizeof_int)"
  shows "nn_tcp_set_options h p source [] =
           Ok ([Setsockopt SOL_SOCKET SO_SNDBUF 4096 sizeof_int,
                Setsockopt SOL_SOCKET SO_RCVBUF 8192 sizeof_int] @
               (if defined_SO_KEEPALIVE p
                then [Setsockopt SOL_SOCKET SO_KEEPALIVE ka sizeof_int] else []) @
               (if defined_TCP_NODELAY p
                then [Setsockopt IPPROTO_TCP TCP_NODELAY 1 sizeof_int] else [])) \<and>
         length (calls (nn_tcp_set_options h p source [])) =
           2 + (if defined_SO_KEEPALIVE p then 1 else 0) +
               (if defined_TCP_NODELAY p then 1 else 0) \<and>
         \<not> issued TCP_KEEPIDLE (nn_tcp_set_options h p source []) \<and>
         \<not> issued TCP_KEEPINTVL (nn_tcp_set_options h p source []) \<and>
         \<not> issued TCP_KEEPCNT (nn_tcp_set_options h p source [])"
proof -
  have "int_sized h source"
    using assms by (simp add: int_sized_def)
  note r = set_options_returns [OF this, of p "[]"]
  have neg: "\<not> (0 :: int32) \<le>s - 1"
    by (simp add: word_sle_eq)
  have eq: "nn_tcp_set_options h p source [] =
           Ok ([Setsockopt SOL_SOCKET SO_SNDBUF 4096 sizeof_int,
                Setsockopt SOL_SOCKET SO_RCVBUF 8192 sizeof_int] @
               (if defined_SO_KEEPALIVE p
                then [Setsockopt SOL_SOCKET SO_KEEPALIVE ka sizeof_int] else []) @
               (if defined_TCP_NODELAY p
                then [Setsockopt IPPROTO_TCP TCP_NODELAY 1 sizeof_int] else []))"
    unfolding r by (simp add: assms neg)
  show ?thesis
    unfolding eq by (simp add: calls_def issued_Ok issued_optional)
qed

theorem end_to_end_calls_witness:
  "sample_store 0 (- 1) (NN_SOL_SOCKET sample_hdr) (NN_SNDBUF sample_hdr) = (4096, sizeof_int) \<and>
   sample_store 0 (- 1) (NN_TCP sample_hdr) (NN_TCP_KEEPIDLE sample_hdr) = (- 1, sizeof_int) \<and>
   nn_tcp_set_options sample_hdr
     (full_platform\<lparr>defined_SO_KEEPALIVE := False\<rparr>) (sample_store 0 (- 1)) [] =
     Ok [Setsockopt SOL_SOCKET SO_SNDBUF 4096 sizeof_int,
         Setsockopt SOL_SOCKET SO_RCVBUF 8192 sizeof_int,
         Setsockopt IPPROTO_TCP TCP_NODELAY 1 sizeof_int]"
  using end_to_end_calls [OF sample_store_values [of 0 "- 1"],
      of "full_platform\<lparr>defined_SO_KEEPALIVE := False\<rparr>"]
  by (simp add: sample_store_values full_platform_def)

text \<open>
  The statement of C3 with exactly three calls, no-delay among them, fails in both
  parts. With the values of the claim in the store, a platform that defines the five
  macros gets four calls, the third one for the keep-alive flag; and a platform that
  does not define \<open>TCP_NODELAY\<close> gets no call for no-delay.
\<close>

theorem end_to_end_three_calls_counterexample:
  "fst (sample_store 0 (- 1) (NN_SOL_SOCKET sample_hdr) (NN_SNDBUF sample_hdr)) = 4096 \<and>
   fst (sample_store 0 (- 1) (NN_SOL_SOCKET sample_hdr) (NN_RCVBUF sample_hdr)) = 8192 \<and>
   fst (sample_store 0 (- 1) (NN_TCP sample_hdr) (NN_TCP_NODELAY sample_hdr)) = 1 \<and>
   fst (sample_store 0 (- 1) (NN_TCP sample_hdr) (NN_TCP_KEEPIDLE sample_hdr)) = - 1 \<and>
   fst (sample_store 0 (- 1) (NN_TCP sample_hdr) (NN_TCP_KEEPINTVL sample_hdr)) = - 1 \<and>
   fst (sample_store 0 (- 1) (NN_TCP sample_hdr) (NN_TCP_KEEPCNT sample_hdr)) = - 1 \<and>
   length (calls (nn_tcp_set_options sample_hdr full_platform (sample_store 0 (- 1)) [])) = 4 \<and>
   length (calls (nn_tcp_set_options sample_hdr full_platform (sample_store 0 (- 1)) [])) \<noteq> 3 \<and>
   issued SO_KEEPALIVE (nn_tcp_set_options sample_hdr full_platform (sample_store 0 (- 1)) []) \<and>
   \<not> issued TCP_NODELAY
        (nn_tcp_set_options sample_hdr (full_platform\<lparr>defined_TCP_NODELAY := False\<rparr>)
           (sample_store 0 (- 1)) [])"
  by (simp add: sample_run_full sample_run_no_nodelay sample_store_values issued_Ok calls_def)

end
